theory Spec2Isabelle
  imports Main
begin

section \<open>Data model of the script engine (main.cpp)\<close>

text \<open>
  The enum \<open>CommandName\<close> and the dictionary \<open>COMMAND_MAP\<close> from script words to kinds.
\<close>

datatype CommandName = LABEL | IMAGE | CLEAR | TEXT | GOTO | SET | INPUT | IF | RETURN

definition COMMAND_MAP :: "string \<rightharpoonup> CommandName" where
  "COMMAND_MAP = map_of
     [(''label'', LABEL), (''image'', IMAGE), (''clear'', CLEAR), (''text'', TEXT),
      (''goto'', GOTO), (''set'', SET), (''input'', INPUT), (''if'', IF),
      (''return'', RETURN)]"

type_synonym TypeName = string
type_synonym Value = string
type_synonym Parameter = "TypeName \<times> Value"
type_synonym Command = "CommandName \<times> Parameter list"

text \<open>
  What ends the process: a standard-library exception that no handler catches
  (\<open>std::terminate\<close>), or an operation whose precondition is violated (an access
  outside a vector or a string, a signed overflow), for which C++ defines no
  behaviour.
\<close>

datatype exception = invalid_argument | out_of_range | bad_function_call | bad_optional_access

datatype fault = undefined_behaviour | terminate exception

section \<open>The standard-library calls the source makes\<close>

text \<open>
  Character classes of the "C" locale (the program never calls \<open>setlocale\<close>).
\<close>

definition isspace :: "char \<Rightarrow> bool" where
  "isspace c = (c \<in> set [CHR 0x20, CHR 0x09, CHR 0x0A, CHR 0x0B, CHR 0x0C, CHR 0x0D])"

definition isdigit :: "char \<Rightarrow> bool" where
  "isdigit c = (c \<in> set ''0123456789'')"

definition isxdigit :: "char \<Rightarrow> bool" where
  "isxdigit c = (c \<in> set ''0123456789abcdefABCDEF'')"

definition n_char :: "char \<Rightarrow> bool" where
  "n_char c = (c \<in> set ''0123456789abcdefghijklmnopqrstuvwxyzABCDEFGHIJKLMNOPQRSTUVWXYZ_'')"

definition skip_sign :: "string \<Rightarrow> string" where
  "skip_sign s =
     (case s of
        [] \<Rightarrow> []
      | c # r \<Rightarrow> if c = CHR ''+'' \<or> c = CHR ''-'' then r else s)"

text \<open>
  \<open>ci_prefix p s\<close>: \<open>s\<close> begins with the word \<open>p\<close>, each letter of which is given
  by the set of its spellings (lower and upper case).
\<close>

fun ci_prefix :: "string list \<Rightarrow> string \<Rightarrow> bool" where
  "ci_prefix [] s = True"
| "ci_prefix (cls # p) [] = False"
| "ci_prefix (cls # p) (c # s) = (c \<in> set cls \<and> ci_prefix p s)"

text \<open>
  The subject sequence of \<open>strtod\<close> (ISO C 7.22.1.3), on which \<open>std::stod\<close> rests:
  white space, an optional sign, then a decimal or hexadecimal floating constant,
  \<open>inf\<close>/\<open>infinity\<close>, or \<open>nan\<close> with an optional payload. The scanner takes the
  longest prefix of that form; what follows it is left unread.

  \<open>mantissa dig s\<close> reads digits with an optional point, at least one digit in all, and
  returns what follows; \<open>exponent_part marks s\<close> reads an exponent if a complete one is
  there.
\<close>

definition mantissa :: "(char \<Rightarrow> bool) \<Rightarrow> string \<Rightarrow> string option" where
  "mantissa dig s =
     (let ip = takeWhile dig s; r1 = dropWhile dig s in
      case r1 of
        [] \<Rightarrow> if ip = [] then None else Some []
      | c # r \<Rightarrow>
          if c = CHR ''.''
          then (if ip = [] \<and> takeWhile dig r = [] then None else Some (dropWhile dig r))
          else (if ip = [] then None else Some r1))"

definition exponent_part :: "string \<Rightarrow> string \<Rightarrow> string" where
  "exponent_part marks s =
     (case s of
        [] \<Rightarrow> []
      | c # r \<Rightarrow>
          if c \<in> set marks \<and> (case skip_sign r of [] \<Rightarrow> False | d # _ \<Rightarrow> isdigit d)
          then dropWhile isdigit (skip_sign r)
          else s)"

definition nan_payload :: "string \<Rightarrow> string" where
  "nan_payload r =
     (case r of
        [] \<Rightarrow> []
      | c # t \<Rightarrow>
          if c = CHR ''(''
          then (case dropWhile n_char t of
                  [] \<Rightarrow> r
                | d # u \<Rightarrow> if d = CHR '')'' then u else r)
          else r)"

definition decimal_constant :: "string \<Rightarrow> string option" where
  "decimal_constant s = map_option (exponent_part ''eE'') (mantissa isdigit s)"

text \<open>
  \<open>strtod_rest nptr\<close> is \<open>None\<close> when no conversion can be performed, and otherwise
  the unread remainder of the string (what \<open>endptr\<close> points to).
\<close>

definition strtod_rest :: "string \<Rightarrow> string option" where
  "strtod_rest nptr =
     (let s = skip_sign (dropWhile isspace nptr) in
      if ci_prefix [''iI'', ''nN'', ''fF''] s
      then Some (if ci_prefix [''iI'', ''nN'', ''iI'', ''tT'', ''yY''] (drop 3 s)
                 then drop 8 s else drop 3 s)
      else if ci_prefix [''nN'', ''aA'', ''nN''] s
      then Some (nan_payload (drop 3 s))
      else
        (case s of
           c0 # cx # h \<Rightarrow>
             if c0 = CHR ''0'' \<and> cx \<in> set ''xX''
             then (case mantissa isxdigit h of
                     None \<Rightarrow> Some (cx # h)
                   | Some r \<Rightarrow> Some (exponent_part ''pP'' r))
             else decimal_constant s
         | _ \<Rightarrow> decimal_constant s))"

text \<open>
  \<open>std::stod(str)\<close> with its result dropped, as \<open>parse_param\<close> calls it: it throws
  \<open>invalid_argument\<close> when no conversion can be performed and \<open>out_of_range\<close> when
  \<open>strtod\<close> reports \<open>ERANGE\<close>. Which strings are out of the range of a \<open>double\<close> is
  a matter of the platform's floating point; the set \<open>E\<close> of those strings is a
  parameter of the model.
\<close>

definition stod :: "string set \<Rightarrow> string \<Rightarrow> exception + unit" where
  "stod E str =
     (case strtod_rest str of
        None \<Rightarrow> Inl invalid_argument
      | Some _ \<Rightarrow> if str \<in> E then Inl out_of_range else Inr ())"

text \<open>
  \<open>front()\<close> of \<open>std::string\<close> (here \<open>str_front\<close>) is \<open>operator[](0)\<close>: on the
  empty string it reads the terminating null character. \<open>back()\<close> (here
  \<open>str_back\<close>) is \<open>operator[](size() - 1)\<close>, which lies outside an empty string.
  \<open>substr\<close> throws when \<open>pos\<close> exceeds the size and clamps the count otherwise. The
  count is a \<open>size_t\<close>: \<open>size_t_sub\<close> is the subtraction of two sizes in 64 bits,
  which wraps when it borrows.
\<close>

definition str_front :: "string \<Rightarrow> char" where
  "str_front s = (case s of [] \<Rightarrow> CHR 0x00 | c # _ \<Rightarrow> c)"

definition str_back :: "string \<Rightarrow> fault + char" where
  "str_back s = (if s = [] then Inl undefined_behaviour else Inr (last s))"

definition size_t_sub :: "nat \<Rightarrow> nat \<Rightarrow> nat" where
  "size_t_sub a b = (if b \<le> a then a - b else 2 ^ 64 - (b - a))"

definition substr :: "string \<Rightarrow> nat \<Rightarrow> nat \<Rightarrow> exception + string" where
  "substr s pos n = (if length s < pos then Inl out_of_range else Inr (take n (drop pos s)))"

section \<open>Parameter classifier: \<open>parse_param\<close>\<close>

text \<open>
  The \<open>try\<close> block tags the token \<open>NUMBER\<close> when \<open>std::stod\<close> returns. The handler
  catches every standard exception of \<open>stod\<close> and then looks at the first and, when
  that is a quote, the last character of the token (\<open>&&\<close> evaluates its right operand
  only then, so \<open>back()\<close> is called on non-empty tokens only). An exception of
  \<open>substr\<close> would leave the handler uncaught.
\<close>

definition parse_param :: "string set \<Rightarrow> string \<Rightarrow> fault + Parameter" where
  "parse_param E source =
     (case stod E source of
        Inr _ \<Rightarrow> Inr (''NUMBER'', source)
      | Inl _ \<Rightarrow>
          if str_front source \<noteq> CHR 0x22 then Inr (''SYMBOL'', source)
          else
            (case str_back source of
               Inl f \<Rightarrow> Inl f
             | Inr c2 \<Rightarrow>
                 if c2 \<noteq> CHR 0x22 then Inr (''SYMBOL'', source)
                 else
                   (case substr source 1 (size_t_sub (length source) 2) of
                      Inl e \<Rightarrow> Inl (terminate e)
                    | Inr v \<Rightarrow> Inr (''STRING'', v))))"

section \<open>Script parser: \<open>parse\<close>\<close>

text \<open>
  \<open>boost::split\<close> with \<open>is_any_of\<close> a single character and the default
  \<open>token_compress_off\<close>: one token per separator plus one, empty tokens kept, so the
  empty string splits into one empty token.
\<close>

fun boost_split :: "char \<Rightarrow> string \<Rightarrow> string list" where
  "boost_split d [] = [[]]"
| "boost_split d (c # s) =
     (if c = d then [] # boost_split d s
      else (case boost_split d s of
              [] \<Rightarrow> [[c]]
            | t # ts \<Rightarrow> (c # t) # ts))"

text \<open>The line written to \<open>std::cerr\<close> for a first token that is no command name.\<close>

definition invalid_command_name :: "string \<Rightarrow> string" where
  "invalid_command_name tok = ''Invalid command name: '' @ [CHR 0x27] @ tok @ [CHR 0x27]"

text \<open>
  The inner loop over \<open>tokens.begin()+1 .. tokens.end()\<close>, pushing each classified
  token onto \<open>parameters\<close>.
\<close>

fun parse_params :: "string set \<Rightarrow> string list \<Rightarrow> Parameter list \<Rightarrow> fault + Parameter list" where
  "parse_params E [] parameters = Inr parameters"
| "parse_params E (tok # toks) parameters =
     (case parse_param E tok of
        Inl f \<Rightarrow> Inl f
      | Inr param \<Rightarrow> parse_params E toks (parameters @ [param]))"

text \<open>
  The loop over the lines. Its state is the vector \<open>result\<close> and what has been written
  to \<open>std::cerr\<close>. An empty line is skipped before it is split; \<open>tokens[0]\<close> is the
  key looked up in \<open>COMMAND_MAP\<close>.
\<close>

fun parse_lines ::
  "string set \<Rightarrow> string list \<Rightarrow> Command list \<times> string list
     \<Rightarrow> fault + Command list \<times> string list" where
  "parse_lines E [] acc = Inr acc"
| "parse_lines E (line # lines) (result, cerr) =
     (if line = [] then parse_lines E lines (result, cerr)
      else
        (case boost_split (CHR 0x09) line of
           [] \<Rightarrow> Inl undefined_behaviour
         | t0 # toks \<Rightarrow>
             (case COMMAND_MAP t0 of
                None \<Rightarrow> parse_lines E lines (result, cerr @ [invalid_command_name t0])
              | Some name \<Rightarrow>
                  (case parse_params E toks [] of
                     Inl f \<Rightarrow> Inl f
                   | Inr parameters \<Rightarrow>
                       parse_lines E lines (result @ [(name, parameters)], cerr)))))"

definition parse :: "string set \<Rightarrow> string \<Rightarrow> fault + Command list \<times> string list" where
  "parse E source = parse_lines E (boost_split (CHR 0x0A) source) ([], [])"

section \<open>Engine state and the preload pass\<close>

text \<open>
  \<open>SDL_Rect\<close> is the four \<open>int\<close>s x, y, w, h. A texture handle is whatever the
  backend returns (\<open>'tex\<close>); the two \<open>std::map\<close>s have one value per key.
\<close>

type_synonym SDL_Rect = "int \<times> int \<times> int \<times> int"

record 'tex ImageState =
  tex :: 'tex
  rect :: SDL_Rect

record 'tex EngineState =
  textures :: "string \<rightharpoonup> 'tex"
  draw_images :: "string \<rightharpoonup> 'tex ImageState"

definition no_path_message :: string where
  "no_path_message = [CHR 0x27] @ ''image'' @ [CHR 0x27] @ '' command should have a file path at 2nd argument.''"

definition not_string_message :: string where
  "not_string_message = ''2nd argument of '' @ [CHR 0x27] @ ''image'' @ [CHR 0x27] @ '' command should be a string.''"

definition not_found_message :: "string \<Rightarrow> string" where
  "not_found_message image_path = ''file: '' @ image_path @ '' not found.''"

text \<open>
  The preload loop of \<open>main\<close>. The file system and the image decoder are the backend's:
  \<open>files\<close> is the set of paths for which \<open>exists_file\<close> answers true, and
  \<open>IMG_LoadTexture k path\<close> is the handle returned by the call made after \<open>k\<close>
  earlier ones. The loop state is the engine state, the paths handed to
  \<open>IMG_LoadTexture\<close> so far (one entry per call), and \<open>std::cerr\<close>.
\<close>

fun preload ::
  "string set \<Rightarrow> (nat \<Rightarrow> string \<Rightarrow> 'tex) \<Rightarrow> Command list
     \<Rightarrow> 'tex EngineState \<times> string list \<times> string list
     \<Rightarrow> 'tex EngineState \<times> string list \<times> string list" where
  "preload files IMG_LoadTexture [] acc = acc"
| "preload files IMG_LoadTexture (cmd # cmds) (st, loaded, cerr) =
     (if fst cmd = IMAGE then
        (let params = snd cmd in
         if length params < 2
         then preload files IMG_LoadTexture cmds (st, loaded, cerr @ [no_path_message])
         else
           (let p2 = params ! 1 in
            if fst p2 \<noteq> ''STRING''
            then preload files IMG_LoadTexture cmds (st, loaded, cerr @ [not_string_message])
            else
              (let image_path = snd p2 in
               if image_path \<notin> files
               then preload files IMG_LoadTexture cmds
                      (st, loaded, cerr @ [not_found_message image_path])
               else
                 (let tx = IMG_LoadTexture (length loaded) image_path in
                  preload files IMG_LoadTexture cmds
                    (st\<lparr>textures := (textures st)(image_path \<mapsto> tx)\<rparr>,
                     loaded @ [image_path], cerr)))))
      else preload files IMG_LoadTexture cmds (st, loaded, cerr))"

section \<open>Command behaviours\<close>

text \<open>
  \<open>std::stoi(str)\<close>: \<open>strtol\<close> in base 10 (white space, an optional sign, digits;
  what follows is left unread), \<open>invalid_argument\<close> without a digit,
  \<open>out_of_range\<close> when the value is no \<open>int\<close> of 32 bits.
\<close>

definition digit_value :: "char \<Rightarrow> int" where
  "digit_value c = int (length (takeWhile (\<lambda>d. d \<noteq> c) ''0123456789''))"

definition decimal_value :: "string \<Rightarrow> int" where
  "decimal_value ds = foldl (\<lambda>a c. 10 * a + digit_value c) 0 ds"

definition stoi :: "string \<Rightarrow> exception + int" where
  "stoi str =
     (let s0 = dropWhile isspace str;
          ds = takeWhile isdigit (skip_sign s0);
          v = (if take 1 s0 = ''-'' then - decimal_value ds else decimal_value ds)
      in if ds = [] then Inl invalid_argument
         else if v < - (2 ^ 31) \<or> 2 ^ 31 - 1 < v then Inl out_of_range
         else Inr v)"

text \<open>
  \<open>params[i]\<close> on the vector: outside the vector the access is undefined.
  \<open>stoi_param params i\<close> is \<open>std::stoi(std::get<1>(params[i]))\<close>, whose exceptions
  nothing catches.
\<close>

definition at_param :: "Parameter list \<Rightarrow> nat \<Rightarrow> fault + Parameter" where
  "at_param params i = (if i < length params then Inr (params ! i) else Inl undefined_behaviour)"

definition stoi_param :: "Parameter list \<Rightarrow> nat \<Rightarrow> fault + int" where
  "stoi_param params i =
     (case at_param params i of
        Inl f \<Rightarrow> Inl f
      | Inr p \<Rightarrow> (case stoi (snd p) of Inl e \<Rightarrow> Inl (terminate e) | Inr v \<Rightarrow> Inr v))"

text \<open>
  A behaviour takes the engine state and the parameters and returns its status, the
  engine state it leaves, and what it wrote to \<open>std::cerr\<close> (the renderer handle is
  passed through unused).
\<close>

type_synonym 'tex CommandFn =
  "'tex EngineState \<Rightarrow> Parameter list \<Rightarrow> fault + int \<times> 'tex EngineState \<times> string list"

definition command_nop :: "'tex CommandFn" where
  "command_nop st params = Inr (0, st, [])"

definition not_loaded_message :: "string \<Rightarrow> string" where
  "not_loaded_message img_path =
     [CHR 0x27] @ ''image'' @ [CHR 0x27] @ '': '' @ img_path @ '' is not loaded.''"

definition command_image :: "'tex CommandFn" where
  "command_image st params =
     (case at_param params 0 of
        Inl f \<Rightarrow> Inl f
      | Inr p0 \<Rightarrow>
     (case at_param params 1 of
        Inl f \<Rightarrow> Inl f
      | Inr p1 \<Rightarrow>
     (let image_id = snd p0; img_path = snd p1 in
      case textures st img_path of
        None \<Rightarrow> Inr (1, st, [not_loaded_message img_path])
      | Some tx \<Rightarrow>
     (case stoi_param params 2 of
        Inl f \<Rightarrow> Inl f
      | Inr rx \<Rightarrow>
     (case stoi_param params 3 of
        Inl f \<Rightarrow> Inl f
      | Inr ry \<Rightarrow>
     (case stoi_param params 4 of
        Inl f \<Rightarrow> Inl f
      | Inr rw \<Rightarrow>
     (case stoi_param params 5 of
        Inl f \<Rightarrow> Inl f
      | Inr rh \<Rightarrow>
          Inr (0,
               st\<lparr>draw_images :=
                    (draw_images st)(image_id \<mapsto> \<lparr>tex = tx, rect = (rx, ry, rw, rh)\<rparr>)\<rparr>,
               []))))))))"

section \<open>Command registry and execution driver\<close>

text \<open>
  \<open>COMMAND_FN_MAP_init\<close> is the static initialiser of \<open>COMMAND_FN_MAP\<close>, entry by
  entry; \<open>COMMAND_FN_MAP\<close> is the table after \<open>main\<close> has stored \<open>command_image\<close>
  under \<open>IMAGE\<close>. \<open>call_fn\<close> is \<open>COMMAND_FN_MAP[command_name](renderer, state, params)\<close>:
  for a key that is absent \<open>operator[]\<close> inserts an empty \<open>std::function\<close>, and
  calling that throws \<open>bad_function_call\<close>, which nothing catches.
\<close>

definition COMMAND_FN_MAP_init :: "CommandName \<rightharpoonup> 'tex CommandFn" where
  "COMMAND_FN_MAP_init =
     [LABEL \<mapsto> command_nop, IMAGE \<mapsto> command_nop, TEXT \<mapsto> command_nop,
      GOTO \<mapsto> command_nop, SET \<mapsto> command_nop, INPUT \<mapsto> command_nop,
      IF \<mapsto> command_nop, RETURN \<mapsto> command_nop]"

definition COMMAND_FN_MAP :: "CommandName \<rightharpoonup> 'tex CommandFn" where
  "COMMAND_FN_MAP = COMMAND_FN_MAP_init(IMAGE \<mapsto> command_image)"

definition call_fn :: "(CommandName \<rightharpoonup> 'tex CommandFn) \<Rightarrow> CommandName \<Rightarrow> 'tex CommandFn" where
  "call_fn fns command_name st params =
     (case fns command_name of
        None \<Rightarrow> Inl (terminate bad_function_call)
      | Some fn \<Rightarrow> fn st params)"

text \<open>
  The variables of the main loop: the \<open>int command_index\<close>, the engine state, the
  frames presented so far (each the placements drawn in it) and \<open>std::cerr\<close>.
\<close>

record 'tex Loop =
  command_index :: int
  state :: "'tex EngineState"
  frames :: "(string \<rightharpoonup> 'tex ImageState) list"
  cerr_out :: "string list"

text \<open>
  One iteration of \<open>while (1)\<close> in which no quit event arrives. The comparison
  \<open>command_index < commands.size()\<close> converts the \<open>int\<close> to \<open>size_t\<close>;
  \<open>command_index += 1\<close> is a signed addition, undefined at \<open>INT_MAX\<close>. After the
  command, if any, every placement is drawn and the frame presented.
\<close>

definition tick ::
  "(CommandName \<rightharpoonup> 'tex CommandFn) \<Rightarrow> Command list \<Rightarrow> 'tex Loop \<Rightarrow> fault + 'tex Loop" where
  "tick fns commands L =
     (if nat (command_index L mod 2 ^ 64) < length commands then
        (case commands ! nat (command_index L mod 2 ^ 64) of
           (command_name, params) \<Rightarrow>
             (case call_fn fns command_name (state L) params of
                Inl f \<Rightarrow> Inl f
              | Inr (status, st', msgs) \<Rightarrow>
                  if command_index L = 2 ^ 31 - 1 then Inl undefined_behaviour
                  else Inr (L\<lparr>command_index := command_index L + 1,
                              state := st',
                              frames := frames L @ [draw_images st'],
                              cerr_out := cerr_out L @ msgs\<rparr>)))
      else Inr (L\<lparr>frames := frames L @ [draw_images (state L)]\<rparr>))"

text \<open>\<open>run fns commands n L\<close>: the loop until the quit event arrives in iteration \<open>n\<close>.\<close>

fun run ::
  "(CommandName \<rightharpoonup> 'tex CommandFn) \<Rightarrow> Command list \<Rightarrow> nat \<Rightarrow> 'tex Loop \<Rightarrow> fault + 'tex Loop" where
  "run fns commands 0 L = Inr L"
| "run fns commands (Suc n) L =
     (case tick fns commands L of
        Inl f \<Rightarrow> Inl f
      | Inr L' \<Rightarrow> run fns commands n L')"

text \<open>\<open>EngineState state{}\<close>: both maps empty.\<close>

definition initial_state :: "'tex EngineState" where
  "initial_state = \<lparr>textures = Map.empty, draw_images = Map.empty\<rparr>"

text \<open>
  \<open>main\<close> from the script file to the quit event: \<open>script\<close> is the content of
  \<open>./script\<close> (\<open>None\<close> when it cannot be opened, and \<open>.value()\<close> throws), \<open>n\<close> the
  number of loop iterations before the quit event. The backend is taken to start up.
\<close>

definition main ::
  "string set \<Rightarrow> string set \<Rightarrow> (nat \<Rightarrow> string \<Rightarrow> 'tex) \<Rightarrow> string option \<Rightarrow> nat
     \<Rightarrow> fault + 'tex Loop" where
  "main E files IMG_LoadTexture script n =
     (case script of
        None \<Rightarrow> Inl (terminate bad_optional_access)
      | Some source \<Rightarrow>
          (case parse E source of
             Inl f \<Rightarrow> Inl f
           | Inr (commands, cerr1) \<Rightarrow>
               (case preload files IMG_LoadTexture commands (initial_state, [], cerr1) of
                  (st, loaded, cerr2) \<Rightarrow>
                    run COMMAND_FN_MAP commands n
                      \<lparr>command_index = 0, state = st, frames = [], cerr_out = cerr2\<rparr>)))"

text \<open>
  The shutdown loop of \<open>main\<close> calls \<open>SDL_DestroyTexture\<close> on the value of every
  entry of \<open>state.textures\<close>: these are the handles that are released.
\<close>

definition released_at_shutdown :: "'tex EngineState \<Rightarrow> 'tex set" where
  "released_at_shutdown st = ran (textures st)"

section \<open>Reference definitions of the specification\<close>

text \<open>
  The specification's classifier, in its words: \<open>NUMBER\<close> when the full token parses
  as a floating-point literal (the platform's parser converts it and leaves nothing
  unread), else \<open>STRING\<close> without its first and last character when both are the
  quote, else \<open>SYMBOL\<close>.
\<close>

definition full_float :: "string set \<Rightarrow> string \<Rightarrow> bool" where
  "full_float E T = (strtod_rest T = Some [] \<and> T \<notin> E)"

definition classify_ref :: "string set \<Rightarrow> string \<Rightarrow> Parameter" where
  "classify_ref E T =
     (if full_float E T then (''NUMBER'', T)
      else if T \<noteq> [] \<and> hd T = CHR 0x22 \<and> last T = CHR 0x22
      then (''STRING'', butlast (tl T))
      else (''SYMBOL'', T))"

text \<open>
  The same classifier with the first test weakened to what \<open>std::stod\<close> checks: the
  token, after optional white space, begins with a floating-point literal that is in
  range; what follows the literal is not looked at.
\<close>

definition float_prefix :: "string set \<Rightarrow> string \<Rightarrow> bool" where
  "float_prefix E T = (strtod_rest T \<noteq> None \<and> T \<notin> E)"

definition classify_prefix :: "string set \<Rightarrow> string \<Rightarrow> Parameter" where
  "classify_prefix E T =
     (if float_prefix E T then (''NUMBER'', T)
      else if T \<noteq> [] \<and> hd T = CHR 0x22 \<and> last T = CHR 0x22
      then (''STRING'', butlast (tl T))
      else (''SYMBOL'', T))"

text \<open>
  The specification's view of a script: its non-blank lines in source order, the
  tab-separated tokens of a line, and the command a line stands for (the kind named
  by the first token, the remaining tokens classified in order).
\<close>

definition line_tokens :: "string \<Rightarrow> string list" where
  "line_tokens line = boost_split (CHR 0x09) line"

definition script_lines :: "string \<Rightarrow> string list" where
  "script_lines source = filter (\<lambda>line. line \<noteq> []) (boost_split (CHR 0x0A) source)"

definition command_of_line :: "string set \<Rightarrow> string \<Rightarrow> Command" where
  "command_of_line E line =
     (the (COMMAND_MAP (hd (line_tokens line))),
      map (classify_prefix E) (tl (line_tokens line)))"

text \<open>
  Of a list of lines: the commands of those non-blank lines whose first token is a
  command name, and the diagnostics of those non-blank lines whose first token is
  none, each naming that token between apostrophes.
\<close>

definition known_line :: "string \<Rightarrow> bool" where
  "known_line line = (line \<noteq> [] \<and> COMMAND_MAP (hd (line_tokens line)) \<noteq> None)"

definition unknown_line :: "string \<Rightarrow> bool" where
  "unknown_line line = (line \<noteq> [] \<and> COMMAND_MAP (hd (line_tokens line)) = None)"

definition commands_of :: "string set \<Rightarrow> string list \<Rightarrow> Command list" where
  "commands_of E lines = map (command_of_line E) (filter known_line lines)"

definition diagnostics_of :: "string list \<Rightarrow> string list" where
  "diagnostics_of lines =
     map (\<lambda>line. ''Invalid command name: '' @ [CHR 0x27] @ hd (line_tokens line) @ [CHR 0x27])
       (filter unknown_line lines)"

text \<open>
  The image references of the preload pass, in the specification's words: an
  \<open>IMAGE\<close> command qualifies when it has a second parameter, of type \<open>STRING\<close>,
  that names an existing file; \<open>image_references\<close> lists the paths of the qualifying
  commands in script order, one entry per reference.
\<close>

definition qualifies :: "string set \<Rightarrow> Command \<Rightarrow> bool" where
  "qualifies files cmd =
     (fst cmd = IMAGE \<and> 2 \<le> length (snd cmd) \<and> fst (snd cmd ! 1) = ''STRING'' \<and>
      snd (snd cmd ! 1) \<in> files)"

definition image_references :: "string set \<Rightarrow> Command list \<Rightarrow> string list" where
  "image_references files cmds =
     map (\<lambda>cmd. snd (snd cmd ! 1)) (filter (qualifies files) cmds)"

text \<open>
  When a dispatch returns at all, as a test on the command and the texture map: the
  kind has a behaviour, and an \<open>IMAGE\<close> command has its first two parameters and
  either no texture for its path or four further parameters that \<open>std::stoi\<close> reads.
\<close>

definition image_returns :: "(string \<rightharpoonup> 'tex) \<Rightarrow> Parameter list \<Rightarrow> bool" where
  "image_returns T params =
     (2 \<le> length params \<and>
      (T (snd (params ! 1)) = None \<or>
       (6 \<le> length params \<and>
        list_all (\<lambda>i. \<not> isl (stoi (snd (params ! i)))) [2, 3, 4, 5])))"

definition dispatch_returns :: "(string \<rightharpoonup> 'tex) \<Rightarrow> Command \<Rightarrow> bool" where
  "dispatch_returns T cmd =
     (fst cmd \<noteq> CLEAR \<and> (fst cmd \<noteq> IMAGE \<or> image_returns T (snd cmd)))"

text \<open>
  Sample values for the closed examples: a backend whose \<open>k\<close>-th load returns the
  handle \<open>k\<close>, and the command of the line \<open>image <id> "<path>"\<close>.
\<close>

definition serial_handle :: "nat \<Rightarrow> string \<Rightarrow> nat" where
  "serial_handle k path = k"

definition image_command :: "string \<Rightarrow> string \<Rightarrow> Command" where
  "image_command image_id path = (IMAGE, [(''SYMBOL'', image_id), (''STRING'', path)])"

section \<open>Properties of the parameter classifier\<close>

lemma substr_strip:
  assumes "T \<noteq> []"
  shows "substr T 1 (size_t_sub (length T) 2) = Inr (butlast (tl T))"
proof (cases "2 \<le> length T")
  case True
  from assms have "take (length T - 2) (drop 1 T) = butlast (tl T)"
    by (cases T) (simp_all add: butlast_conv_take drop_Suc)
  with True assms show ?thesis
    by (simp add: substr_def size_t_sub_def)
next
  case False
  with assms obtain c where "T = [c]"
    by (cases T) (auto simp: Suc_le_eq)
  then show ?thesis
    by (simp add: substr_def size_t_sub_def)
qed

lemma stod_float_prefix: "(stod E T = Inr ()) = float_prefix E T"
  by (auto simp: stod_def float_prefix_def split: option.splits)

lemma parse_param_nonempty:
  assumes "T \<noteq> []"
  shows "parse_param E T = Inr (classify_prefix E T)"
  using assms stod_float_prefix [of E T] substr_strip [of T]
  by (cases T)
     (auto simp: parse_param_def classify_prefix_def str_front_def str_back_def
           split: sum.splits)

lemma classify_prefix_ref:
  assumes "strtod_rest T = None \<or> strtod_rest T = Some []"
  shows "classify_prefix E T = classify_ref E T"
  using assms
  by (auto simp: classify_prefix_def classify_ref_def float_prefix_def full_float_def)

lemma strtod_rest_empty: "strtod_rest [] = None"
  by (simp add: strtod_rest_def decimal_constant_def mantissa_def skip_sign_def)

lemma parse_param_empty: "parse_param E [] = Inr (''SYMBOL'', [])"
  by (simp add: parse_param_def stod_def strtod_rest_empty str_front_def)

lemma parse_param_total: "parse_param E T = Inr (classify_prefix E T)"
proof (cases "T = []")
  case True
  then show ?thesis
    by (simp add: parse_param_empty classify_prefix_def float_prefix_def strtod_rest_empty)
next
  case False
  then show ?thesis by (rule parse_param_nonempty)
qed

text \<open>
  Claim C3. On every token, the empty one included, the classifier returns a
  parameter, never a fault, and its tag is one of \<open>NUMBER\<close>, \<open>STRING\<close> and
  \<open>SYMBOL\<close>; it is a function of the token (and of the platform's floating-point
  range), so equal tokens are classified equally. On the empty token \<open>std::stod\<close>
  throws, \<open>front()\<close> reads the terminating null character, which is no quote,
  \<open>back()\<close> is not evaluated, and the result is \<open>SYMBOL\<close> with the empty value.
\<close>

theorem parse_param_total_empty_symbol:
  "(\<exists>tag v. parse_param E T = Inr (tag, v) \<and> tag \<in> {''NUMBER'', ''STRING'', ''SYMBOL''}) \<and>
   parse_param E [] = Inr (''SYMBOL'', [])"
proof
  have "parse_param E T = Inr (classify_prefix E T)"
    by (rule parse_param_total)
  moreover have "fst (classify_prefix E T) \<in> {''NUMBER'', ''STRING'', ''SYMBOL''}"
    by (simp add: classify_prefix_def)
  ultimately show "\<exists>tag v. parse_param E T = Inr (tag, v) \<and>
                     tag \<in> {''NUMBER'', ''STRING'', ''SYMBOL''}"
    by (metis prod.collapse)
  show "parse_param E [] = Inr (''SYMBOL'', [])"
    by (rule parse_param_empty)
qed

text \<open>
  Claim C4, as stated: on every non-empty token the classifier equals the reference
  definition. It fails on a token that begins with a number and goes on: \<open>1abc\<close> is
  tagged \<open>NUMBER\<close>, where the reference gives \<open>SYMBOL\<close>. (The literal \<open>1\<close> is in
  the range of a \<open>double\<close> on every platform, so the token is in no set of out-of-range
  strings; the empty set stands for that here.)
\<close>

theorem parse_param_number_prefix_counterexample:
  "parse_param {} ''1abc'' = Inr (''NUMBER'', ''1abc'') \<and>
   classify_ref {} ''1abc'' = (''SYMBOL'', ''1abc'')"
  by (simp add: parse_param_def classify_ref_def full_float_def stod_def strtod_rest_def
        decimal_constant_def mantissa_def exponent_part_def skip_sign_def isspace_def
        isdigit_def)

text \<open>
  Claim C4, amended: on every non-empty token \<open>T\<close> the classifier tags \<open>NUMBER\<close>,
  with value \<open>T\<close>, exactly when \<open>std::stod\<close> converts \<open>T\<close>, that is when \<open>T\<close>
  begins (after optional white space) with an in-range floating-point literal;
  otherwise \<open>STRING\<close> with the first and the last character stripped when both are the
  quote; otherwise \<open>SYMBOL\<close> with \<open>T\<close> verbatim. It equals the reference definition
  on every token that the float parser either rejects or reads to its end.
\<close>

theorem parse_param_classify:
  assumes "T \<noteq> []"
  shows "parse_param E T = Inr (classify_prefix E T) \<and>
         (strtod_rest T = None \<or> strtod_rest T = Some []
            \<longrightarrow> parse_param E T = Inr (classify_ref E T))"
  using assms parse_param_nonempty [of T E] classify_prefix_ref [of T E]
  by auto

theorem parse_param_classify_witness:
  "parse_param {} [CHR 0x22, CHR ''h'', CHR ''i'', CHR 0x22] = Inr (''STRING'', ''hi'') \<and>
   classify_ref {} [CHR 0x22, CHR ''h'', CHR ''i'', CHR 0x22] = (''STRING'', ''hi'')"
  using parse_param_classify [of "[CHR 0x22, CHR ''h'', CHR ''i'', CHR 0x22]" "{}"]
  by (simp add: classify_prefix_def classify_ref_def float_prefix_def full_float_def
        strtod_rest_def decimal_constant_def mantissa_def skip_sign_def isspace_def
        isdigit_def)

section \<open>Properties of the script parser\<close>

lemma boost_split_not_Nil: "boost_split d s \<noteq> []"
  by (induction s) (auto split: list.splits)

lemma parse_params_total:
  "parse_params E toks acc = Inr (acc @ map (classify_prefix E) toks)"
  by (induction toks arbitrary: acc) (auto simp: parse_param_total)

lemma parse_lines_step:
  assumes "line \<noteq> []"
  shows "parse_lines E (line # lines) (result, cerr) =
     (case COMMAND_MAP (hd (line_tokens line)) of
        None \<Rightarrow> parse_lines E lines (result, cerr @ [invalid_command_name (hd (line_tokens line))])
      | Some name \<Rightarrow>
          (case parse_params E (tl (line_tokens line)) [] of
             Inl f \<Rightarrow> Inl f
           | Inr parameters \<Rightarrow> parse_lines E lines (result @ [(name, parameters)], cerr)))"
  using assms boost_split_not_Nil [of "CHR 0x09" line]
  by (cases "boost_split (CHR 0x09) line")
     (simp_all add: line_tokens_def split: option.split sum.split)

lemma parse_lines_blank:
  "parse_lines E ([] # lines) (result, cerr) = parse_lines E lines (result, cerr)"
  by simp

declare parse_lines.simps(2) [simp del]

text \<open>
  The line loop never faults: it returns the commands of the known lines and the
  diagnostics of the unknown ones, each in source order, after what it started with.
\<close>

lemma parse_lines_total:
  "parse_lines E lines (result, cerr) =
     Inr (result @ commands_of E lines, cerr @ diagnostics_of lines)"
proof (induction lines arbitrary: result cerr)
  case Nil
  show ?case by (simp add: commands_of_def diagnostics_of_def)
next
  case (Cons line lines)
  show ?case
  proof (cases "line = []")
    case True
    then show ?thesis
      using Cons.IH [of result cerr]
      by (simp add: parse_lines_blank commands_of_def diagnostics_of_def known_line_def
            unknown_line_def)
  next
    case False
    show ?thesis
    proof (cases "COMMAND_MAP (hd (line_tokens line))")
      case None
      have "parse_lines E (line # lines) (result, cerr) =
              parse_lines E lines (result, cerr @ [invalid_command_name (hd (line_tokens line))])"
        using False None by (simp add: parse_lines_step)
      then show ?thesis
        using False None
        by (simp add: Cons.IH commands_of_def diagnostics_of_def known_line_def
              unknown_line_def invalid_command_name_def)
    next
      case (Some name)
      have "parse_lines E (line # lines) (result, cerr) =
              parse_lines E lines (result @ [command_of_line E line], cerr)"
        using False Some
        by (simp add: parse_lines_step parse_params_total command_of_line_def)
      then show ?thesis
        using False Some
        by (simp add: Cons.IH commands_of_def diagnostics_of_def known_line_def
              unknown_line_def)
    qed
  qed
qed

lemma parse_total:
  "parse E source =
     Inr (commands_of E (boost_split (CHR 0x0A) source),
          diagnostics_of (boost_split (CHR 0x0A) source))"
  by (simp add: parse_def parse_lines_total)

text \<open>
  Claim C7. For every script whose non-blank lines all begin with a command name,
  \<open>parse\<close> returns exactly the commands of its non-blank lines, one per line and in
  source order, each with the kind its first token names and one parameter per
  further token, so with as many parameters as the line has tokens less one, and it
  writes no diagnostic. Blank lines and the empty fragment after a trailing newline
  give no command: the script of two newlines parses to the empty sequence.
\<close>

theorem parse_one_command_per_line:
  assumes "\<forall>line \<in> set (script_lines source). COMMAND_MAP (hd (line_tokens line)) \<noteq> None"
  shows "parse E source = Inr (map (command_of_line E) (script_lines source), []) \<and>
         map (\<lambda>cmd. length (snd cmd)) (map (command_of_line E) (script_lines source))
           = map (\<lambda>line. length (line_tokens line) - 1) (script_lines source) \<and>
         parse E [CHR 0x0A, CHR 0x0A] = Inr ([], [])"
proof -
  let ?lines = "boost_split (CHR 0x0A) source"
  from assms have known: "filter known_line ?lines = script_lines source"
    by (auto simp: script_lines_def known_line_def intro: filter_cong)
  from assms have unknown: "filter unknown_line ?lines = []"
    by (auto simp: script_lines_def unknown_line_def filter_empty_conv)
  have "parse E source = Inr (map (command_of_line E) (script_lines source), [])"
    by (simp add: parse_total commands_of_def diagnostics_of_def known unknown)
  moreover have "parse E [CHR 0x0A, CHR 0x0A] = Inr ([], [])"
    by (simp add: parse_def parse_lines.simps)
  ultimately show ?thesis
    by (simp add: command_of_line_def)
qed

theorem parse_one_command_per_line_witness:
  "parse {} (''label'' @ [CHR 0x09, CHR 0x0A, CHR 0x0A] @ ''goto'' @ [CHR 0x09] @ ''start''
             @ [CHR 0x09] @ ''3.14'' @ [CHR 0x0A])
     = Inr ([(LABEL, [(''SYMBOL'', [])]),
             (GOTO, [(''SYMBOL'', ''start''), (''NUMBER'', ''3.14'')])], [])"
  using parse_one_command_per_line
          [of "''label'' @ [CHR 0x09, CHR 0x0A, CHR 0x0A] @ ''goto'' @ [CHR 0x09] @ ''start''
               @ [CHR 0x09] @ ''3.14'' @ [CHR 0x0A]" "{}"]
  by (simp add: script_lines_def line_tokens_def COMMAND_MAP_def command_of_line_def
        classify_prefix_def float_prefix_def strtod_rest_def decimal_constant_def
        mantissa_def exponent_part_def skip_sign_def isspace_def isdigit_def)

text \<open>
  Claim C8. Let \<open>line\<close> be a non-blank line of the script (blank lines are skipped
  before they are split, so these are the lines that have a first token) whose first
  token is no command name. Then \<open>parse\<close> returns the commands of the known lines
  before it followed by the commands of the known lines after it, each with all its
  parameters classified and none for the line itself, whatever tokens it has; and it
  writes the diagnostics of the lines before, then \<open>Invalid command name: '\<close>, the
  line's first token and \<open>'\<close>, then the diagnostics of the lines after.
\<close>

theorem parse_skips_unknown_command:
  assumes "boost_split (CHR 0x0A) source = before @ line # after"
    and "line \<noteq> []"
    and "COMMAND_MAP (hd (line_tokens line)) = None"
  shows "parse E source =
           Inr (commands_of E before @ commands_of E after,
                diagnostics_of before
                @ (''Invalid command name: '' @ [CHR 0x27] @ hd (line_tokens line) @ [CHR 0x27])
                # diagnostics_of after)"
  using assms
  by (simp add: parse_total commands_of_def diagnostics_of_def known_line_def unknown_line_def)

theorem parse_skips_unknown_command_witness:
  "parse {} (''label'' @ [CHR 0x09] @ ''a'' @ [CHR 0x0A] @ ''bogus'' @ [CHR 0x09] @ ''foo''
             @ [CHR 0x0A] @ ''goto'' @ [CHR 0x09] @ ''start'' @ [CHR 0x09] @ ''3.14'')
     = Inr ([(LABEL, [(''SYMBOL'', ''a'')]),
             (GOTO, [(''SYMBOL'', ''start''), (''NUMBER'', ''3.14'')])],
            [''Invalid command name: '' @ [CHR 0x27] @ ''bogus'' @ [CHR 0x27]])"
  using parse_skips_unknown_command
          [of "''label'' @ [CHR 0x09] @ ''a'' @ [CHR 0x0A] @ ''bogus'' @ [CHR 0x09] @ ''foo''
               @ [CHR 0x0A] @ ''goto'' @ [CHR 0x09] @ ''start'' @ [CHR 0x09] @ ''3.14''"
              "[''label'' @ [CHR 0x09] @ ''a'']" "''bogus'' @ [CHR 0x09] @ ''foo''"
              "[''goto'' @ [CHR 0x09] @ ''start'' @ [CHR 0x09] @ ''3.14'']" "{}"]
  by (simp add: line_tokens_def COMMAND_MAP_def commands_of_def diagnostics_of_def
        known_line_def unknown_line_def command_of_line_def
        classify_prefix_def float_prefix_def strtod_rest_def decimal_constant_def
        mantissa_def exponent_part_def skip_sign_def isspace_def isdigit_def)

declare parse_lines.simps(2) [simp]

section \<open>Properties of the preload pass\<close>

lemma preload_step:
  "preload files L (cmd # cmds) (st, loaded, cerr) =
     (if qualifies files cmd
      then preload files L cmds
             (st\<lparr>textures := (textures st)(snd (snd cmd ! 1) \<mapsto> L (length loaded) (snd (snd cmd ! 1)))\<rparr>,
              loaded @ [snd (snd cmd ! 1)], cerr)
      else preload files L cmds (st, loaded, cerr @ 
         (if fst cmd \<noteq> IMAGE then [] else if length (snd cmd) < 2 then [no_path_message]
          else if fst (snd cmd ! 1) \<noteq> ''STRING'' then [not_string_message]
          else [not_found_message (snd (snd cmd ! 1))])))"
  by (auto simp: qualifies_def Let_def)

lemma preload_loaded:
  "preload files L cmds (st, loaded, cerr) = (st', loaded', cerr') \<Longrightarrow>
   loaded' = loaded @ image_references files cmds \<and>
   dom (textures st') = dom (textures st) \<union> set (image_references files cmds) \<and>
   draw_images st' = draw_images st"
proof (induction cmds arbitrary: st loaded cerr)
  case Nil
  then show ?case by (simp add: image_references_def)
next
  case (Cons cmd cmds)
  show ?case
  proof (cases "qualifies files cmd")
    case True
    with Cons.prems have
      "preload files L cmds
         (st\<lparr>textures := (textures st)(snd (snd cmd ! 1) \<mapsto> L (length loaded) (snd (snd cmd ! 1)))\<rparr>,
          loaded @ [snd (snd cmd ! 1)], cerr) = (st', loaded', cerr')"
      by (simp only: preload_step if_True)
    from Cons.IH [OF this] True show ?thesis
      by (auto simp: image_references_def)
  next
    case False
    with Cons.prems obtain ms where
      "preload files L cmds (st, loaded, cerr @ ms) = (st', loaded', cerr')"
      by (simp only: preload_step if_False)
    from Cons.IH [OF this] False show ?thesis
      by (auto simp: image_references_def)
  qed
qed

lemma preload_handles:
  assumes "preload files L cmds (st, loaded, cerr) = (st', loaded', cerr')"
    and "\<And>p tx. textures st p = Some tx \<Longrightarrow> \<exists>k<length loaded. loaded ! k = p \<and> tx = L k p"
    and "textures st' p = Some tx"
  shows "\<exists>k<length loaded'. loaded' ! k = p \<and> tx = L k p"
  using assms
proof (induction cmds arbitrary: st loaded cerr)
  case Nil
  then show ?case by simp
next
  case (Cons cmd cmds)
  show ?case
  proof (cases "qualifies files cmd")
    case True
    let ?q = "snd (snd cmd ! 1)"
    let ?st = "st\<lparr>textures := (textures st)(?q \<mapsto> L (length loaded) ?q)\<rparr>"
    from True Cons.prems(1) have run:
      "preload files L cmds (?st, loaded @ [?q], cerr) = (st', loaded', cerr')"
      by (simp only: preload_step if_True)
    have inv: "\<exists>k<length (loaded @ [?q]). (loaded @ [?q]) ! k = r \<and> t = L k r"
      if "textures ?st r = Some t" for r t
    proof (cases "r = ?q")
      case True
      with that have "t = L (length loaded) ?q" by simp
      with True show ?thesis by (intro exI [of _ "length loaded"]) simp
    next
      case False
      with that have "textures st r = Some t" by simp
      from Cons.prems(2) [OF this] obtain k where "k < length loaded" "loaded ! k = r" "t = L k r"
        by blast
      then show ?thesis by (intro exI [of _ k]) (simp add: nth_append)
    qed
    from Cons.IH [OF run inv Cons.prems(3)] show ?thesis by blast
  next
    case False
    with Cons.prems(1) obtain ms where
      "preload files L cmds (st, loaded, cerr @ ms) = (st', loaded', cerr')"
      by (simp only: preload_step if_False)
    from Cons.IH [OF this Cons.prems(2) Cons.prems(3)] show ?thesis by blast
  qed
qed

text \<open>
  What the pass does on every command sequence: \<open>IMG_LoadTexture\<close> is called once
  for every qualifying reference, in script order; afterwards the map has an entry
  exactly for the distinct qualifying paths, and each entry holds a handle that a load
  of that path returned.
\<close>

lemma preload_loads_every_reference:
  assumes "preload files IMG_LoadTexture cmds (initial_state, [], []) = (st, loaded, cerr)"
  shows "loaded = image_references files cmds \<and>
         dom (textures st) = set (image_references files cmds) \<and>
         (\<forall>p tx. textures st p = Some tx \<longrightarrow>
            (\<exists>k<length loaded. loaded ! k = p \<and> tx = IMG_LoadTexture k p))"
proof -
  from preload_loaded [OF assms] have
    "loaded = image_references files cmds" "dom (textures st) = set (image_references files cmds)"
    by (simp_all add: initial_state_def)
  moreover have "\<exists>k<length loaded. loaded ! k = p \<and> tx = IMG_LoadTexture k p"
    if "textures st p = Some tx" for p tx
    using preload_handles [OF assms _ that] by (simp add: initial_state_def)
  ultimately show ?thesis by blast
qed

lemma parse_image_twice:
  "parse E (''image'' @ [CHR 0x09] @ ''left'' @ [CHR 0x09, CHR 0x22] @ ''a.png'' @ [CHR 0x22, CHR 0x0A]
            @ ''image'' @ [CHR 0x09] @ ''right'' @ [CHR 0x09, CHR 0x22] @ ''a.png'' @ [CHR 0x22])
   = Inr ([image_command ''left'' ''a.png'', image_command ''right'' ''a.png''], [])"
  by (simp add: parse_def COMMAND_MAP_def image_command_def parse_param_def stod_def
        strtod_rest_def decimal_constant_def mantissa_def skip_sign_def isspace_def
        isdigit_def str_front_def str_back_def substr_def size_t_sub_def)

text \<open>
  Claim C5. Every distinct image path is claimed to be loaded exactly once,
  deduplicated across repeated references. The pass has no test for a path that is
  already in the map. The two lines \<open>image left "a.png"\<close> and \<open>image right "a.png"\<close>
  (tab-separated), with \<open>a.png\<close> an existing file, make two calls of
  \<open>IMG_LoadTexture\<close> for the one path; the second handle overwrites the first in the
  map, and the first, held by no entry, is not among the handles released at
  shutdown.
\<close>

theorem preload_loads_twice:
  "parse E (''image'' @ [CHR 0x09] @ ''left'' @ [CHR 0x09, CHR 0x22] @ ''a.png'' @ [CHR 0x22, CHR 0x0A]
            @ ''image'' @ [CHR 0x09] @ ''right'' @ [CHR 0x09, CHR 0x22] @ ''a.png'' @ [CHR 0x22])
     = Inr ([image_command ''left'' ''a.png'', image_command ''right'' ''a.png''], []) \<and>
   preload {''a.png''} serial_handle
     [image_command ''left'' ''a.png'', image_command ''right'' ''a.png'']
     (initial_state, [], [])
     = (initial_state\<lparr>textures := [''a.png'' \<mapsto> serial_handle 1 ''a.png'']\<rparr>,
        [''a.png'', ''a.png''], []) \<and>
   serial_handle 0 ''a.png'' \<notin>
     released_at_shutdown
       (fst (preload {''a.png''} serial_handle
               [image_command ''left'' ''a.png'', image_command ''right'' ''a.png'']
               (initial_state, [], [])))"
  using parse_image_twice [of E]
  by (simp add: image_command_def Let_def serial_handle_def initial_state_def
        released_at_shutdown_def)

section \<open>Properties of the command behaviours and the registry\<close>

lemmas scan_defs =
  stod_def strtod_rest_def decimal_constant_def mantissa_def exponent_part_def
  skip_sign_def isspace_def isdigit_def

lemmas registry_defs = COMMAND_FN_MAP_init_def COMMAND_FN_MAP_def call_fn_def

lemma parse_clear: "parse E ''clear'' = Inr ([(CLEAR, [])], [])"
  by (simp add: parse_def COMMAND_MAP_def)

text \<open>
  Claim C1. Every kind of the vocabulary is claimed to have a behaviour in the
  registry. The initialiser of \<open>COMMAND_FN_MAP\<close> lists eight of the nine kinds:
  \<open>CLEAR\<close> is missing, \<open>main\<close> adds nothing for it, and dispatching a \<open>clear\<close>
  command calls an empty \<open>std::function\<close>. The script \<open>clear\<close> ends the process in
  its first tick.
\<close>

theorem clear_has_no_behaviour:
  "(COMMAND_FN_MAP_init :: CommandName \<rightharpoonup> 'tex CommandFn) CLEAR = None \<and>
   (COMMAND_FN_MAP :: CommandName \<rightharpoonup> 'tex CommandFn) CLEAR = None \<and>
   call_fn COMMAND_FN_MAP CLEAR st params = Inl (terminate bad_function_call) \<and>
   main E files IMG_LoadTexture (Some ''clear'') (Suc n) = Inl (terminate bad_function_call)"
  by (simp add: main_def parse_clear tick_def registry_defs)

lemma parse_image_xywh:
  "parse E (''image'' @ [CHR 0x09] @ ''p'' @ [CHR 0x09] @ [CHR 0x22] @ ''a.png'' @ [CHR 0x22]
            @ [CHR 0x09] @ ''x'' @ [CHR 0x09] @ ''y'' @ [CHR 0x09] @ ''w'' @ [CHR 0x09] @ ''h'')
   = Inr ([(IMAGE, [(''SYMBOL'', ''p''), (''STRING'', ''a.png''), (''SYMBOL'', ''x''),
                    (''SYMBOL'', ''y''), (''SYMBOL'', ''w''), (''SYMBOL'', ''h'')])], [])"
  by (simp add: parse_def COMMAND_MAP_def parse_param_def scan_defs str_front_def
        str_back_def substr_def size_t_sub_def)

text \<open>
  Claim C2. A command with a wrong parameter count or type is claimed to be logged and
  skipped. \<open>command_image\<close> checks neither: with the image loaded, the line
  \<open>image p "a.png" x y w h\<close> (tab-separated) reaches \<open>std::stoi("x")\<close>, whose
  \<open>invalid_argument\<close> nothing catches, and the line \<open>image\<close> without parameters
  reads \<open>params[0]\<close> of an empty vector. Both end the process in the first tick.
\<close>

theorem command_image_bad_parameters_fatal:
  "main E {''a.png''} IMG_LoadTexture
     (Some (''image'' @ [CHR 0x09] @ ''p'' @ [CHR 0x09] @ [CHR 0x22] @ ''a.png'' @ [CHR 0x22]
            @ [CHR 0x09] @ ''x'' @ [CHR 0x09] @ ''y'' @ [CHR 0x09] @ ''w'' @ [CHR 0x09] @ ''h''))
     (Suc n)
   = Inl (terminate invalid_argument) \<and>
   main E files IMG_LoadTexture (Some ''image'') (Suc n) = Inl undefined_behaviour"
proof
  show "main E {''a.png''} IMG_LoadTexture
     (Some (''image'' @ [CHR 0x09] @ ''p'' @ [CHR 0x09] @ [CHR 0x22] @ ''a.png'' @ [CHR 0x22]
            @ [CHR 0x09] @ ''x'' @ [CHR 0x09] @ ''y'' @ [CHR 0x09] @ ''w'' @ [CHR 0x09] @ ''h''))
     (Suc n)
   = Inl (terminate invalid_argument)"
    using parse_image_xywh [of E]
    by (simp add: Let_def main_def initial_state_def tick_def registry_defs command_image_def
          at_param_def stoi_param_def stoi_def scan_defs)
  show "main E files IMG_LoadTexture (Some ''image'') (Suc n) = Inl undefined_behaviour"
    by (simp add: main_def initial_state_def parse_def COMMAND_MAP_def tick_def registry_defs
          command_image_def at_param_def)
qed

text \<open>
  What \<open>command_image\<close> does when it returns. Without a texture for the path it
  writes its message, returns 1 and leaves the engine state as it was. With the
  texture, and with four numbers that \<open>std::stoi\<close> reads, it stores the placement
  under the identifier and returns 0; executed on a state that already has a
  placement under that identifier, it replaces it, and the map keeps its keys.
\<close>

lemma command_image_effect:
  "(textures st img_path = None \<longrightarrow>
      command_image st ((t0, image_id) # (t1, img_path) # rest)
        = Inr (1, st, [not_loaded_message img_path])) \<and>
   (textures st img_path = Some tx \<and>
    stoi sx = Inr rx \<and> stoi sy = Inr ry \<and> stoi sw = Inr rw \<and> stoi sh = Inr rh \<longrightarrow>
      command_image st
        ((t0, image_id) # (t1, img_path) # (t2, sx) # (t3, sy) # (t4, sw) # (t5, sh) # extra)
        = Inr (0,
               st\<lparr>draw_images :=
                    (draw_images st)(image_id \<mapsto> \<lparr>tex = tx, rect = (rx, ry, rw, rh)\<rparr>)\<rparr>,
               [])) \<and>
   (textures st img_path = Some tx \<and>
    stoi sx = Inr rx \<and> stoi sy = Inr ry \<and> stoi sw = Inr rw \<and> stoi sh = Inr rh \<longrightarrow>
      command_image (st\<lparr>draw_images := (draw_images st)(image_id \<mapsto> old)\<rparr>)
        ((t0, image_id) # (t1, img_path) # (t2, sx) # (t3, sy) # (t4, sw) # (t5, sh) # extra)
        = Inr (0,
               st\<lparr>draw_images :=
                    (draw_images st)(image_id \<mapsto> \<lparr>tex = tx, rect = (rx, ry, rw, rh)\<rparr>)\<rparr>,
               []) \<and>
      dom ((draw_images st)(image_id \<mapsto> \<lparr>tex = tx, rect = (rx, ry, rw, rh)\<rparr>))
        = dom ((draw_images st)(image_id \<mapsto> old)))"
  by (simp add: command_image_def at_param_def stoi_param_def)

lemma stoi_examples:
  "stoi ''10'' = Inr 10" "stoi ''20'' = Inr 20" "stoi ''100'' = Inr 100" "stoi ''150'' = Inr 150"
  by (simp_all add: stoi_def skip_sign_def isspace_def isdigit_def decimal_value_def digit_value_def)

lemma command_image_effect_example:
  "command_image (initial_state :: nat EngineState)
     [(''SYMBOL'', ''portrait''), (''STRING'', ''char.png'')]
     = Inr (1, initial_state, [not_loaded_message ''char.png'']) \<and>
   command_image (initial_state\<lparr>textures := [''char.png'' \<mapsto> 0::nat]\<rparr>)
     [(''SYMBOL'', ''portrait''), (''STRING'', ''char.png''), (''NUMBER'', ''10''),
      (''NUMBER'', ''20''), (''NUMBER'', ''100''), (''NUMBER'', ''150'')]
     = Inr (0, initial_state\<lparr>textures := [''char.png'' \<mapsto> 0],
               draw_images := [''portrait'' \<mapsto> \<lparr>tex = 0, rect = (10, 20, 100, 150)\<rparr>]\<rparr>, [])"
  using command_image_effect [where st = "initial_state :: nat EngineState"
          and img_path = "''char.png''" and image_id = "''portrait''"
          and ?t0.0 = "''SYMBOL''" and ?t1.0 = "''STRING''" and rest = "[]"]
        command_image_effect [where st = "initial_state\<lparr>textures := [''char.png'' \<mapsto> 0::nat]\<rparr>"
          and img_path = "''char.png''" and image_id = "''portrait''" and tx = 0
          and ?t0.0 = "''SYMBOL''" and ?t1.0 = "''STRING''"
          and ?t2.0 = "''NUMBER''" and ?t3.0 = "''NUMBER''" and ?t4.0 = "''NUMBER''" and ?t5.0 = "''NUMBER''"
          and sx = "''10''" and sy = "''20''" and sw = "''100''" and sh = "''150''"
          and rx = 10 and ry = 20 and rw = 100 and rh = 150 and extra = "[]"]
  by (simp add: stoi_examples initial_state_def)

lemma parse_image_half:
  "parse {} (''image'' @ [CHR 0x09] @ ''p'' @ [CHR 0x09, CHR 0x22] @ ''a.png'' @ [CHR 0x22, CHR 0x09]
             @ ''.5'' @ [CHR 0x09] @ ''0'' @ [CHR 0x09] @ ''1'' @ [CHR 0x09] @ ''1'')
   = Inr ([(IMAGE, [(''SYMBOL'', ''p''), (''STRING'', ''a.png''), (''NUMBER'', ''.5''),
                    (''NUMBER'', ''0''), (''NUMBER'', ''1''), (''NUMBER'', ''1'')])], [])"
  by (simp add: parse_def COMMAND_MAP_def parse_param_def scan_defs str_front_def
        str_back_def substr_def size_t_sub_def)

text \<open>
  Claim C6. Executing an \<open>IMAGE\<close> command whose path is preloaded is claimed to
  insert or overwrite the placement with the given rectangle. The rectangle is read
  with \<open>std::stoi\<close>, and nothing catches what it throws: the line
  \<open>image p "a.png" .5 0 1 1\<close> (tab-separated), whose four numbers the classifier
  tags \<open>NUMBER\<close>, ends the process in the first tick with \<open>invalid_argument\<close>, the
  image being loaded, and the \<open>NUMBER\<close> \<open>4294967296\<close> as x ends it with
  \<open>out_of_range\<close>; no placement is stored.
\<close>

theorem command_image_number_rectangle_fatal:
  "main {} {''a.png''} IMG_LoadTexture
     (Some (''image'' @ [CHR 0x09] @ ''p'' @ [CHR 0x09, CHR 0x22] @ ''a.png'' @ [CHR 0x22, CHR 0x09]
            @ ''.5'' @ [CHR 0x09] @ ''0'' @ [CHR 0x09] @ ''1'' @ [CHR 0x09] @ ''1''))
     (Suc n)
   = Inl (terminate invalid_argument) \<and>
   parse_param {} ''4294967296'' = Inr (''NUMBER'', ''4294967296'') \<and>
   command_image (initial_state\<lparr>textures := [''a.png'' \<mapsto> tx]\<rparr>)
     [(''SYMBOL'', ''p''), (''STRING'', ''a.png''), (''NUMBER'', ''4294967296''),
      (''NUMBER'', ''0''), (''NUMBER'', ''1''), (''NUMBER'', ''1'')]
   = Inl (terminate out_of_range)"
proof (intro conjI)
  show "main {} {''a.png''} IMG_LoadTexture
     (Some (''image'' @ [CHR 0x09] @ ''p'' @ [CHR 0x09, CHR 0x22] @ ''a.png'' @ [CHR 0x22, CHR 0x09]
            @ ''.5'' @ [CHR 0x09] @ ''0'' @ [CHR 0x09] @ ''1'' @ [CHR 0x09] @ ''1''))
     (Suc n)
   = Inl (terminate invalid_argument)"
    using parse_image_half
    by (simp add: Let_def main_def initial_state_def tick_def registry_defs command_image_def
          at_param_def stoi_param_def stoi_def scan_defs)
  show "parse_param {} ''4294967296'' = Inr (''NUMBER'', ''4294967296'')"
    by (simp add: parse_param_def scan_defs)
  show "command_image (initial_state\<lparr>textures := [''a.png'' \<mapsto> tx]\<rparr>)
     [(''SYMBOL'', ''p''), (''STRING'', ''a.png''), (''NUMBER'', ''4294967296''),
      (''NUMBER'', ''0''), (''NUMBER'', ''1''), (''NUMBER'', ''1'')]
   = Inl (terminate out_of_range)"
    by (simp add: command_image_def at_param_def stoi_param_def stoi_def skip_sign_def
          isspace_def isdigit_def decimal_value_def digit_value_def initial_state_def)
qed

text \<open>
  Claim C10. Command execution never changes the map from paths to textures: whenever
  a registered behaviour returns (the no-op, the \<open>IMAGE\<close> behaviour, or a dispatch
  through the registry before or after \<open>main\<close> has registered \<open>command_image\<close>),
  the state it leaves differs from the one it got in the placements at most.
\<close>

theorem behaviours_keep_textures:
  assumes "command_nop st params = Inr (status, st', msgs) \<or>
           command_image st params = Inr (status, st', msgs) \<or>
           call_fn COMMAND_FN_MAP_init name st params = Inr (status, st', msgs) \<or>
           call_fn COMMAND_FN_MAP name st params = Inr (status, st', msgs)"
  shows "textures st' = textures st \<and> st' = st\<lparr>draw_images := draw_images st'\<rparr>"
  using assms
  by (cases name)
     (auto simp: command_nop_def command_image_def registry_defs Let_def
           split: sum.splits option.splits)

theorem behaviours_keep_textures_witness:
  "command_image (initial_state\<lparr>textures := [''char.png'' \<mapsto> 0::nat]\<rparr>)
     [(''SYMBOL'', ''portrait''), (''STRING'', ''char.png''), (''NUMBER'', ''10''),
      (''NUMBER'', ''20''), (''NUMBER'', ''100''), (''NUMBER'', ''150'')]
     = Inr (0, initial_state\<lparr>textures := [''char.png'' \<mapsto> 0],
               draw_images := [''portrait'' \<mapsto> \<lparr>tex = 0, rect = (10, 20, 100, 150)\<rparr>]\<rparr>, []) \<and>
   textures (initial_state\<lparr>textures := [''char.png'' \<mapsto> 0::nat],
               draw_images := [''portrait'' \<mapsto> \<lparr>tex = 0, rect = (10, 20, 100, 150)\<rparr>]\<rparr>)
     = textures (initial_state\<lparr>textures := [''char.png'' \<mapsto> 0::nat]\<rparr>)"
  using behaviours_keep_textures [where st = "initial_state\<lparr>textures := [''char.png'' \<mapsto> 0::nat]\<rparr>"
      and params = "[(''SYMBOL'', ''portrait''), (''STRING'', ''char.png''), (''NUMBER'', ''10''),
      (''NUMBER'', ''20''), (''NUMBER'', ''100''), (''NUMBER'', ''150'')]"
      and status = 0 and msgs = "[]" and name = IMAGE
      and st' = "initial_state\<lparr>textures := [''char.png'' \<mapsto> 0],
               draw_images := [''portrait'' \<mapsto> \<lparr>tex = 0, rect = (10, 20, 100, 150)\<rparr>]\<rparr>"]
  by (simp add: command_image_def at_param_def stoi_param_def stoi_examples initial_state_def)

section \<open>Properties of the execution driver\<close>

lemma command_image_returns:
  "image_returns (textures st) params \<longleftrightarrow> (\<exists>r. command_image st params = Inr r)"
  by (auto simp: image_returns_def command_image_def at_param_def stoi_param_def Let_def
           split: sum.splits option.splits)

lemma call_fn_returns:
  "dispatch_returns (textures st) (name, params) \<longleftrightarrow>
     (\<exists>r. call_fn COMMAND_FN_MAP name st params = Inr r)"
  using command_image_returns [of st params]
  by (cases name) (auto simp: dispatch_returns_def registry_defs command_nop_def)

lemma call_fn_textures:
  assumes "call_fn COMMAND_FN_MAP name st params = Inr (status, st', msgs)"
  shows "textures st' = textures st"
  using assms
  by (cases name)
     (auto simp: command_nop_def command_image_def registry_defs Let_def
           split: sum.splits option.splits)

lemma tick_drained:
  assumes "command_index L = int (length commands)" and "length commands < 2 ^ 31"
  shows "tick fns commands L = Inr (L\<lparr>frames := frames L @ [draw_images (state L)]\<rparr>)"
proof -
  from assms(2) have "nat (int (length commands) mod 2 ^ 64) = length commands" by simp
  with assms(1) show ?thesis by (simp add: tick_def)
qed

lemma tick_running:
  assumes "command_index L = int i" and "i < length commands" and "length commands < 2 ^ 31"
    and "call_fn fns (fst (commands ! i)) (state L) (snd (commands ! i)) = Inr (status, st', msgs)"
  shows "tick fns commands L =
           Inr (L\<lparr>command_index := int i + 1, state := st',
                   frames := frames L @ [draw_images st'], cerr_out := cerr_out L @ msgs\<rparr>)"
proof -
  obtain name params where cmd: "commands ! i = (name, params)"
    by (cases "commands ! i")
  from assms(2,3) have "int i < 2 ^ 31 - 1" by simp
  moreover from this have "nat (int i mod 2 ^ 64) = i" by simp
  ultimately show ?thesis
    using assms(1,2,4) cmd by (simp add: tick_def)
qed

lemma run_add:
  "run fns commands (a + b) L =
     (case run fns commands a L of Inl f \<Rightarrow> Inl f | Inr L' \<Rightarrow> run fns commands b L')"
  by (induction a arbitrary: L) (auto split: sum.splits)

lemma run_drained:
  assumes "command_index L = int (length commands)" and "length commands < 2 ^ 31"
  shows "run fns commands n L = Inr (L\<lparr>frames := frames L @ replicate n (draw_images (state L))\<rparr>)"
  using assms
proof (induction n arbitrary: L)
  case 0
  then show ?case by simp
next
  case (Suc n)
  let ?L = "L\<lparr>frames := frames L @ [draw_images (state L)]\<rparr>"
  from Suc.prems have "run fns commands (Suc n) L = run fns commands n ?L"
    by (simp add: tick_drained)
  also have "\<dots> = Inr (?L\<lparr>frames := frames ?L @ replicate n (draw_images (state ?L))\<rparr>)"
    using Suc.prems by (intro Suc.IH) simp
  finally show ?case by (simp add: replicate_app_Cons_same)
qed

lemma run_running:
  assumes "\<forall>c \<in> set commands. dispatch_returns (textures (state L)) c"
    and "length commands < 2 ^ 31"
    and "command_index L = int i" and "i + n \<le> length commands"
  shows "\<exists>L'. run COMMAND_FN_MAP commands n L = Inr L' \<and> command_index L' = int (i + n) \<and>
              length (frames L') = length (frames L) + n \<and>
              textures (state L') = textures (state L)"
  using assms
proof (induction n arbitrary: L i)
  case 0
  then show ?case by simp
next
  case (Suc n)
  from Suc.prems(4) have i: "i < length commands" by simp
  then have "commands ! i \<in> set commands" by simp
  with Suc.prems(1) have "dispatch_returns (textures (state L)) (fst (commands ! i), snd (commands ! i))"
    by simp
  then obtain status st' msgs where
    call: "call_fn COMMAND_FN_MAP (fst (commands ! i)) (state L) (snd (commands ! i))
             = Inr (status, st', msgs)"
    unfolding call_fn_returns by (metis prod_cases3)
  let ?L = "L\<lparr>command_index := int i + 1, state := st',
               frames := frames L @ [draw_images st'], cerr_out := cerr_out L @ msgs\<rparr>"
  have tick: "tick COMMAND_FN_MAP commands L = Inr ?L"
    using Suc.prems(3) i Suc.prems(2) call by (rule tick_running)
  have tex: "textures (state ?L) = textures (state L)"
    using call_fn_textures [OF call] by simp
  have "\<exists>L'. run COMMAND_FN_MAP commands n ?L = Inr L' \<and> command_index L' = int (Suc i + n) \<and>
              length (frames L') = length (frames ?L) + n \<and>
              textures (state L') = textures (state ?L)"
    using Suc.prems(1,2,4) tex by (intro Suc.IH) simp_all
  with tick tex show ?case by auto
qed

text \<open>
  For fewer than \<open>2^31\<close> commands whose dispatches all return (with whatever
  status), the driver executes command \<open>k\<close> in tick \<open>k + 1\<close> and nothing else: after
  \<open>k \<le> N\<close> ticks the index is \<open>k\<close> and \<open>k\<close> frames have been presented, after \<open>N\<close>
  ticks it is drained, and every later tick only presents the placements again.
\<close>

lemma driver_drains:
  assumes "\<forall>c \<in> set commands. dispatch_returns (textures st0) c"
    and "length commands < 2 ^ 31"
  shows "\<exists>D. run COMMAND_FN_MAP commands (length commands)
                \<lparr>command_index = 0, state = st0, frames = [], cerr_out = ms0\<rparr> = Inr D \<and>
              command_index D = int (length commands) \<and>
              (\<forall>k \<le> length commands. \<exists>L.
                  run COMMAND_FN_MAP commands k
                    \<lparr>command_index = 0, state = st0, frames = [], cerr_out = ms0\<rparr> = Inr L \<and>
                  command_index L = int k \<and> length (frames L) = k) \<and>
              (\<forall>m. run COMMAND_FN_MAP commands (length commands + m)
                      \<lparr>command_index = 0, state = st0, frames = [], cerr_out = ms0\<rparr>
                    = Inr (D\<lparr>frames := frames D @ replicate m (draw_images (state D))\<rparr>))"
proof -
  let ?L0 = "\<lparr>command_index = 0, state = st0, frames = [], cerr_out = ms0\<rparr>"
  have steps: "\<exists>L. run COMMAND_FN_MAP commands k ?L0 = Inr L \<and> command_index L = int k \<and>
                   length (frames L) = k" if "k \<le> length commands" for k
    using run_running [of commands ?L0 0 k] assms that by auto
  from steps [of "length commands"] obtain D where
    D: "run COMMAND_FN_MAP commands (length commands) ?L0 = Inr D"
       "command_index D = int (length commands)"
    by auto
  have "run COMMAND_FN_MAP commands (length commands + m) ?L0
          = Inr (D\<lparr>frames := frames D @ replicate m (draw_images (state D))\<rparr>)" for m
    using D assms(2) by (simp add: run_add run_drained)
  with D steps show ?thesis by blast
qed

text \<open>
  Claim C9. Given \<open>N\<close> parsed commands the driver is claimed to reach the drained
  state after \<open>N\<close> ticks. A dispatch that does not return ends the loop instead: for
  the one parsed command \<open>clear\<close>, which has no behaviour in the registry (C1), the
  first tick ends the process, whatever the number of ticks, and the index never
  reaches 1.
\<close>

theorem clear_stops_driver:
  "run COMMAND_FN_MAP [(CLEAR, [])] (Suc n)
     \<lparr>command_index = 0, state = st, frames = fs, cerr_out = ms\<rparr>
   = Inl (terminate bad_function_call)"
  by (simp add: tick_def registry_defs)

end
